theory Spec2Isabelle
  imports Main "HOL-Library.AList"
begin

section \<open>Test Cached Engines: the diagnostic script of pyRevitDevTools\<close>

text \<open>
  The script under verification (Python 2, run by the host's IronPython engine):
  \<^verbatim>\<open>
  __context__ = 'zerodoc'

  from pyrevit import EXEC_PARAMS
  for engine_id in EXEC_PARAMS.engine_mgr.EngineDict:
      print(engine_id)

  print('Running in reused engine?\n{}'
        .format('Yes' if __cachedengine__ else 'No'))

  from pyrevit.output import PyRevitOutputMgr

  print PyRevitOutputMgr.get_all_outputs()
  \<close>
  Everything it touches is handed to it by the host: the importable modules, the
  name \<open>__cachedengine__\<close> in its scope, and the standard output. The model makes
  these explicit as a state, and turns every way a statement can raise into a value.
\<close>

subsection \<open>Exceptions and values\<close>

text \<open>
  The exceptions the statements of the script can raise. The string is the name that
  could not be found (module, imported name, variable, attribute), the operation a
  value does not support (for a \<open>TypeError\<close>), or whatever the host API reports.
\<close>

datatype py_exception =
    ImportError string
  | NameError string
  | AttributeError string
  | TypeError string
  | HostError string

text \<open>
  The values the host can hand to the script, as far as the script can observe them:
  it converts a value to text (\<open>print\<close>), tests its truth, iterates over it, reads
  an attribute of it, or calls it without arguments. Sequences, mappings, plain
  objects and callables are host objects: they carry the text the host runtime
  produces for them. A callable is given by what a call without arguments yields,
  a returned value or a raised exception.
\<close>

datatype pyval =
    PNone
  | PBool bool
  | PInt int
  | PStr string
  | PSeq string "pyval list"
  | PMap string "(pyval \<times> pyval) list"
  | PObj string "(string \<times> pyval) list"
  | PFunc string "py_exception + pyval"

definition newline :: char where
  "newline = CHR 0x0A"

definition digit_char :: "nat \<Rightarrow> char" where
  "digit_char d = char_of (48 + d)"

function show_nat :: "nat \<Rightarrow> string" where
  "show_nat n = (if n < 10 then [digit_char n] else show_nat (n div 10) @ [digit_char (n mod 10)])"
  by pat_completeness auto
termination
  by (relation "measure (\<lambda>n. n)") auto

definition show_int :: "int \<Rightarrow> string" where
  "show_int i = (if i < 0 then CHR ''-'' # show_nat (nat (- i)) else show_nat (nat i))"

text \<open>\<open>str(v)\<close>, the text \<open>print\<close> writes for a value.\<close>

fun py_str :: "pyval \<Rightarrow> string" where
  "py_str PNone = ''None''"
| "py_str (PBool b) = (if b then ''True'' else ''False'')"
| "py_str (PInt i) = show_int i"
| "py_str (PStr s) = s"
| "py_str (PSeq t xs) = t"
| "py_str (PMap t kvs) = t"
| "py_str (PObj t attrs) = t"
| "py_str (PFunc t r) = t"

text \<open>
  The truth value of a value, as \<open>if\<close> and the conditional expression test it:
  \<open>None\<close>, \<open>False\<close>, zero and every empty string or container are false,
  everything else is true.
\<close>

fun truthy :: "pyval \<Rightarrow> bool" where
  "truthy PNone = False"
| "truthy (PBool b) = b"
| "truthy (PInt i) = (i \<noteq> 0)"
| "truthy (PStr s) = (s \<noteq> [])"
| "truthy (PSeq t xs) = (xs \<noteq> [])"
| "truthy (PMap t kvs) = (kvs \<noteq> [])"
| "truthy (PObj t attrs) = True"
| "truthy (PFunc t r) = True"

text \<open>
  What a \<open>for\<close> loop iterates over: the items of a sequence, the keys of a mapping
  in the mapping's own order (the engine registry is such a mapping, from engine
  identifier to engine instance), the characters of a string. Anything else is not
  iterable.
\<close>

fun py_iter :: "pyval \<Rightarrow> py_exception + pyval list" where
  "py_iter (PSeq t xs) = Inr xs"
| "py_iter (PMap t kvs) = Inr (map fst kvs)"
| "py_iter (PStr s) = Inr (map (\<lambda>c. PStr [c]) s)"
| "py_iter v = Inl (TypeError ''not iterable'')"

text \<open>
  \<open>v.name\<close>. Only the attributes a host object carries are modelled; none of the
  names the script reads (\<open>engine_mgr\<close>, \<open>EngineDict\<close>, \<open>get_all_outputs\<close>) is
  an attribute of a built-in type.
\<close>

fun getattr :: "pyval \<Rightarrow> string \<Rightarrow> py_exception + pyval" where
  "getattr (PObj t attrs) name =
     (case map_of attrs name of None \<Rightarrow> Inl (AttributeError name) | Some v \<Rightarrow> Inr v)"
| "getattr v name = Inl (AttributeError name)"

text \<open>
  Modelled from the spec: the one callable the script calls,
  \<open>PyRevitOutputMgr.get_all_outputs\<close>, is defined in the host library
  \<open>pyrevit.output\<close>, not in this script. The spec describes it as an accessor of a
  host-side singleton that returns the active outputs; so \<open>v()\<close>, a call without
  arguments, yields a value or raises, and leaves the state as it is.
\<close>

fun call0 :: "pyval \<Rightarrow> py_exception + pyval" where
  "call0 (PFunc t r) = r"
| "call0 v = Inl (TypeError ''not callable'')"

text \<open>
  \<open>template.format(arg)\<close> for a string argument and a template whose only
  replacement field is \<open>{}\<close>: the field is replaced by the argument.
\<close>

fun py_format :: "string \<Rightarrow> string \<Rightarrow> string" where
  "py_format (c # d # cs) arg =
     (if c = CHR ''{'' \<and> d = CHR ''}'' then arg @ cs else c # py_format (d # cs) arg)"
| "py_format cs arg = cs"

subsection \<open>The state the script runs in\<close>

record state =
  modules :: "(string \<times> (string \<times> pyval) list) list"
  scope :: "(string \<times> pyval) list"
  printed :: "string list"

text \<open>
  \<open>modules\<close> is what the host makes importable: each module by its dotted name, with
  the names it defines. \<open>scope\<close> holds the names visible to the script body; the host
  has put \<open>__cachedengine__\<close> there before the body runs. \<open>printed\<close> is the
  standard output, one entry for each executed \<open>print\<close> statement, holding the text
  of its argument; the statement ends the text with a newline.
\<close>

definition stdout_bytes :: "string list \<Rightarrow> string" where
  "stdout_bytes lines = concat (map (\<lambda>line. line @ [newline]) lines)"

text \<open>The lines of a text: its pieces between newlines.\<close>

fun split_lines :: "string \<Rightarrow> string list" where
  "split_lines [] = [[]]"
| "split_lines (c # cs) =
     (if c = newline then [] # split_lines cs
      else (case split_lines cs of [] \<Rightarrow> [[c]] | line # rest \<Rightarrow> (c # line) # rest))"

text \<open>Evaluation stops at the first exception: the rest of the chain is not run.\<close>

definition and_then :: "'e + 'a \<Rightarrow> ('a \<Rightarrow> 'e + 'b) \<Rightarrow> 'e + 'b" where
  "and_then r f = (case r of Inl e \<Rightarrow> Inl e | Inr v \<Rightarrow> f v)"

definition assign :: "string \<Rightarrow> pyval \<Rightarrow> state \<Rightarrow> state" where
  "assign name v s = s\<lparr>scope := AList.update name v (scope s)\<rparr>"

definition lookup_name :: "string \<Rightarrow> state \<Rightarrow> py_exception + pyval" where
  "lookup_name name s =
     (case map_of (scope s) name of None \<Rightarrow> Inl (NameError name) | Some v \<Rightarrow> Inr v)"

definition module_attr :: "string \<Rightarrow> string \<Rightarrow> state \<Rightarrow> py_exception + pyval" where
  "module_attr m name s =
     (case map_of (modules s) m of
        None \<Rightarrow> Inl (ImportError m)
      | Some names \<Rightarrow>
          (case map_of names name of None \<Rightarrow> Inl (ImportError name) | Some v \<Rightarrow> Inr v))"

text \<open>\<open>from m import name\<close>\<close>

definition import_from :: "string \<Rightarrow> string \<Rightarrow> state \<Rightarrow> py_exception + state" where
  "import_from m name s = and_then (module_attr m name s) (\<lambda>v. Inr (assign name v s))"

text \<open>
  \<open>print v\<close>. Converting a host value to text and writing to the standard output
  are taken to succeed.
\<close>

definition print_stmt :: "pyval \<Rightarrow> state \<Rightarrow> state" where
  "print_stmt v s = s\<lparr>printed := printed s @ [py_str v]\<rparr>"

subsection \<open>The statements of the script\<close>

text \<open>\<open>__context__ = 'zerodoc'\<close>\<close>

definition assign_context :: "state \<Rightarrow> py_exception + state" where
  "assign_context s = Inr (assign ''__context__'' (PStr ''zerodoc'') s)"

text \<open>\<open>from pyrevit import EXEC_PARAMS\<close>\<close>

definition import_exec_params :: "state \<Rightarrow> py_exception + state" where
  "import_exec_params = import_from ''pyrevit'' ''EXEC_PARAMS''"

text \<open>
  \<open>for engine_id in EXEC_PARAMS.engine_mgr.EngineDict:\<close> evaluates the expression
  and asks it for its items, once, before the first round.
\<close>

definition engine_ids :: "state \<Rightarrow> py_exception + pyval list" where
  "engine_ids s =
     and_then (lookup_name ''EXEC_PARAMS'' s) (\<lambda>exec_params.
     and_then (getattr exec_params ''engine_mgr'') (\<lambda>engine_mgr.
     and_then (getattr engine_mgr ''EngineDict'') py_iter))"

text \<open>One round of the loop: bind \<open>engine_id\<close>, then \<open>print(engine_id)\<close>.\<close>

definition loop_body :: "pyval \<Rightarrow> state \<Rightarrow> state" where
  "loop_body engine_id s = print_stmt engine_id (assign ''engine_id'' engine_id s)"

text \<open>\<open>'Yes' if __cachedengine__ else 'No'\<close>, for the value the name holds.\<close>

definition reuse_answer :: "pyval \<Rightarrow> string" where
  "reuse_answer cachedengine = (if truthy cachedengine then ''Yes'' else ''No'')"

definition reuse_message :: "pyval \<Rightarrow> string" where
  "reuse_message cachedengine =
     py_format (''Running in reused engine?'' @ [newline] @ ''{}'') (reuse_answer cachedengine)"

text \<open>\<open>print('Running in reused engine?\n{}'.format('Yes' if __cachedengine__ else 'No'))\<close>\<close>

definition print_reuse :: "state \<Rightarrow> py_exception + state" where
  "print_reuse s =
     and_then (lookup_name ''__cachedengine__'' s) (\<lambda>cachedengine.
     Inr (print_stmt (PStr (reuse_message cachedengine)) s))"

text \<open>\<open>from pyrevit.output import PyRevitOutputMgr\<close>\<close>

definition import_output_mgr :: "state \<Rightarrow> py_exception + state" where
  "import_output_mgr = import_from ''pyrevit.output'' ''PyRevitOutputMgr''"

text \<open>\<open>print PyRevitOutputMgr.get_all_outputs()\<close>\<close>

definition print_outputs :: "state \<Rightarrow> py_exception + state" where
  "print_outputs s =
     and_then (lookup_name ''PyRevitOutputMgr'' s) (\<lambda>mgr.
     and_then (getattr mgr ''get_all_outputs'') (\<lambda>f.
     and_then (call0 f) (\<lambda>outputs.
     Inr (print_stmt outputs s))))"

subsection \<open>Running the script\<close>

text \<open>
  A statement of the script is either a simple statement or the \<open>for\<close> loop, given
  by its iterable and its body.
\<close>

datatype stmt =
    Simple "state \<Rightarrow> py_exception + state"
  | For "state \<Rightarrow> py_exception + pyval list" "pyval \<Rightarrow> state \<Rightarrow> state"

fun for_each :: "(pyval \<Rightarrow> state \<Rightarrow> state) \<Rightarrow> pyval list \<Rightarrow> state \<Rightarrow> state" where
  "for_each body [] s = s"
| "for_each body (x # xs) s = for_each body xs (body x s)"

fun run_stmt :: "stmt \<Rightarrow> state \<Rightarrow> py_exception + state" where
  "run_stmt (Simple f) s = f s"
| "run_stmt (For iterable body) s =
     and_then (iterable s) (\<lambda>items. Inr (for_each body items s))"

text \<open>
  The statements run in order. The first exception ends the run: nothing catches
  it, the statements after it are not executed, and what was printed before stays
  printed.
\<close>

fun run_stmts :: "stmt list \<Rightarrow> state \<Rightarrow> state \<times> py_exception option" where
  "run_stmts [] s = (s, None)"
| "run_stmts (c # cs) s =
     (case run_stmt c s of Inl e \<Rightarrow> (s, Some e) | Inr s' \<Rightarrow> run_stmts cs s')"

definition script_stmts :: "stmt list" where
  "script_stmts =
     [Simple assign_context,
      Simple import_exec_params,
      For engine_ids loop_body,
      Simple print_reuse,
      Simple import_output_mgr,
      Simple print_outputs]"

definition script :: "state \<Rightarrow> state \<times> py_exception option" where
  "script = run_stmts script_stmts"

text \<open>What a run adds to the standard output: the entries after those already there.\<close>

definition script_output :: "state \<Rightarrow> string list" where
  "script_output s = drop (length (printed s)) (printed (fst (script s)))"

subsection \<open>Running the script step by step\<close>

text \<open>
  The same run as a machine that executes one statement, or one round of the loop,
  at a time. Its control is the statements still to run; inside the loop, the items
  still to visit as well. \<open>exec\<close> runs the machine for at most a given number of
  steps and yields nothing when the script has not finished by then.
\<close>

datatype control =
    Running "stmt list"
  | Looping "pyval \<Rightarrow> state \<Rightarrow> state" "pyval list" "stmt list"
  | Finished "py_exception option"

fun step :: "control \<times> state \<Rightarrow> control \<times> state" where
  "step (Running [], s) = (Finished None, s)"
| "step (Running (Simple f # cs), s) =
     (case f s of Inl e \<Rightarrow> (Finished (Some e), s) | Inr s' \<Rightarrow> (Running cs, s'))"
| "step (Running (For iterable body # cs), s) =
     (case iterable s of
        Inl e \<Rightarrow> (Finished (Some e), s)
      | Inr items \<Rightarrow> (Looping body items cs, s))"
| "step (Looping body [] cs, s) = (Running cs, s)"
| "step (Looping body (x # xs) cs, s) = (Looping body xs cs, body x s)"
| "step (Finished r, s) = (Finished r, s)"

fun exec :: "nat \<Rightarrow> control \<times> state \<Rightarrow> (state \<times> py_exception option) option" where
  "exec fuel (Finished r, s) = Some (s, r)"
| "exec 0 (c, s) = None"
| "exec (Suc fuel) (c, s) = exec fuel (step (c, s))"

text \<open>
  The number of steps the machine takes for a run: one for a simple statement, one to
  enter the loop, one for each round and one to leave it, one to finish.
\<close>

fun stmt_steps :: "stmt \<Rightarrow> state \<Rightarrow> nat" where
  "stmt_steps (Simple f) s = 1"
| "stmt_steps (For iterable body) s =
     (case iterable s of Inl e \<Rightarrow> 1 | Inr items \<Rightarrow> 2 + length items)"

fun steps :: "stmt list \<Rightarrow> state \<Rightarrow> nat" where
  "steps [] s = 1"
| "steps (c # cs) s =
     stmt_steps c s + (case run_stmt c s of Inl e \<Rightarrow> 0 | Inr s' \<Rightarrow> steps cs s')"

subsection \<open>What the host supplies\<close>

text \<open>
  The three things the script reads, as they stand in a state: the engine registry
  \<open>EXEC_PARAMS.engine_mgr.EngineDict\<close> of module \<open>pyrevit\<close>, the cache-hit
  indicator \<open>__cachedengine__\<close> of the scope, and the result of
  \<open>PyRevitOutputMgr.get_all_outputs()\<close> of module \<open>pyrevit.output\<close>. Each is an
  exception when the host does not supply it.
\<close>

definition host_engine_dict :: "state \<Rightarrow> py_exception + pyval" where
  "host_engine_dict s =
     and_then (module_attr ''pyrevit'' ''EXEC_PARAMS'' s) (\<lambda>exec_params.
     and_then (getattr exec_params ''engine_mgr'') (\<lambda>engine_mgr.
     getattr engine_mgr ''EngineDict''))"

definition host_cachedengine :: "state \<Rightarrow> py_exception + pyval" where
  "host_cachedengine s = lookup_name ''__cachedengine__'' s"

definition host_all_outputs :: "state \<Rightarrow> py_exception + pyval" where
  "host_all_outputs s =
     and_then (module_attr ''pyrevit.output'' ''PyRevitOutputMgr'' s) (\<lambda>mgr.
     and_then (getattr mgr ''get_all_outputs'') call0)"

definition host_engine_ids :: "state \<Rightarrow> py_exception + pyval list" where
  "host_engine_ids s = and_then (host_engine_dict s) py_iter"

text \<open>A host for the examples: two cached engines, a reused engine, one output window.\<close>

definition example_registry :: pyval where
  "example_registry =
     PMap ''Dictionary[str, ScriptEngine]''
       [(PStr ''engine-a'', PObj ''<ScriptEngine a>'' []),
        (PStr ''engine-b'', PObj ''<ScriptEngine b>'' [])]"

definition example_outputs :: pyval where
  "example_outputs = PSeq ''[<ScriptOutput 1>]'' [PObj ''<ScriptOutput 1>'' []]"

definition host_with :: "pyval \<Rightarrow> (string \<times> pyval) list \<Rightarrow> py_exception + pyval \<Rightarrow> state" where
  "host_with registry names outputs =
     \<lparr>modules =
        [(''pyrevit'',
          [(''EXEC_PARAMS'',
            PObj ''<EXEC_PARAMS>''
              [(''engine_mgr'', PObj ''<EngineManager>'' [(''EngineDict'', registry)])])]),
         (''pyrevit.output'',
          [(''PyRevitOutputMgr'',
            PObj ''<PyRevitOutputMgr>''
              [(''get_all_outputs'', PFunc ''<get_all_outputs>'' outputs)])])],
      scope = names,
      printed = []\<rparr>"

definition example_host :: state where
  "example_host =
     host_with example_registry [(''__cachedengine__'', PBool True)] (Inr example_outputs)"

text \<open>A host given by its modules alone, with the cache-hit indicator set.\<close>

definition host_modules :: "(string \<times> (string \<times> pyval) list) list \<Rightarrow> state" where
  "host_modules ms = \<lparr>modules = ms, scope = [(''__cachedengine__'', PBool True)], printed = []\<rparr>"

section \<open>Properties\<close>

subsection \<open>What each statement changes\<close>

lemma and_then_simps [simp]:
  "and_then (Inl e) f = Inl e" "and_then (Inr v) f = f v"
  by (simp_all add: and_then_def)

lemma and_then_assoc: "and_then (and_then r f) g = and_then r (\<lambda>v. and_then (f v) g)"
  by (cases r) simp_all

lemma assign_fields [simp]:
  "modules (assign n v s) = modules s"
  "printed (assign n v s) = printed s"
  "map_of (scope (assign n v s)) = (map_of (scope s))(n \<mapsto> v)"
  by (simp_all add: assign_def update_conv')

lemma print_stmt_fields [simp]:
  "modules (print_stmt v s) = modules s"
  "scope (print_stmt v s) = scope s"
  "printed (print_stmt v s) = printed s @ [py_str v]"
  by (simp_all add: print_stmt_def)

lemma for_each_loop_body_modules [simp]:
  "modules (for_each loop_body ks s) = modules s"
  by (induction ks arbitrary: s) (simp_all add: loop_body_def)

lemma for_each_loop_body_printed [simp]:
  "printed (for_each loop_body ks s) = printed s @ map py_str ks"
  by (induction ks arbitrary: s) (simp_all add: loop_body_def)

lemma for_each_loop_body_scope:
  "name \<noteq> ''engine_id'' \<Longrightarrow>
   map_of (scope (for_each loop_body ks s)) name = map_of (scope s) name"
  by (induction ks arbitrary: s) (simp_all add: loop_body_def)

lemma module_attr_cong:
  "modules s' = modules s \<Longrightarrow> module_attr m n s' = module_attr m n s"
  by (simp add: module_attr_def)

lemma module_attr_assign [simp]: "module_attr m n (assign x v s) = module_attr m n s"
  by (simp add: module_attr_def)

lemma lookup_name_cong:
  "map_of (scope s') n = map_of (scope s) n \<Longrightarrow> lookup_name n s' = lookup_name n s"
  by (simp add: lookup_name_def)

lemma reuse_message_eq:
  "reuse_message c = ''Running in reused engine?'' @ [newline] @ reuse_answer c"
  by (simp add: reuse_message_def newline_def)

subsection \<open>The run in closed form\<close>

lemma script_prefix:
  "run_stmts script_stmts s =
     (case module_attr ''pyrevit'' ''EXEC_PARAMS'' s of
        Inl e \<Rightarrow> (assign ''__context__'' (PStr ''zerodoc'') s, Some e)
      | Inr v \<Rightarrow> run_stmts (drop 2 script_stmts)
                  (assign ''EXEC_PARAMS'' v (assign ''__context__'' (PStr ''zerodoc'') s)))"
  by (cases "module_attr ''pyrevit'' ''EXEC_PARAMS'' s")
    (simp_all add: script_stmts_def assign_context_def import_exec_params_def import_from_def)

lemma engine_ids_after_import:
  "module_attr ''pyrevit'' ''EXEC_PARAMS'' s = Inr v \<Longrightarrow>
   engine_ids (assign ''EXEC_PARAMS'' v s') = host_engine_ids s"
  by (simp add: engine_ids_def host_engine_ids_def host_engine_dict_def lookup_name_def
      and_then_assoc)

lemma script_rest:
  assumes "module_attr ''pyrevit'' ''EXEC_PARAMS'' s = Inr v"
      and "s2 = assign ''EXEC_PARAMS'' v (assign ''__context__'' (PStr ''zerodoc'') s)"
  shows "run_stmts (drop 2 script_stmts) s2 =
     (case host_engine_ids s of
        Inl e \<Rightarrow> (s2, Some e)
      | Inr ks \<Rightarrow>
         (case host_cachedengine s of
            Inl e \<Rightarrow> (for_each loop_body ks s2, Some e)
          | Inr c \<Rightarrow>
             (case module_attr ''pyrevit.output'' ''PyRevitOutputMgr'' s of
                Inl e \<Rightarrow> (print_stmt (PStr (reuse_message c)) (for_each loop_body ks s2), Some e)
              | Inr m \<Rightarrow>
                 (case and_then (getattr m ''get_all_outputs'') call0 of
                    Inl e \<Rightarrow> (assign ''PyRevitOutputMgr'' m
                               (print_stmt (PStr (reuse_message c)) (for_each loop_body ks s2)), Some e)
                  | Inr r \<Rightarrow> (print_stmt r (assign ''PyRevitOutputMgr'' m
                               (print_stmt (PStr (reuse_message c)) (for_each loop_body ks s2))), None)))))"
proof -
  have ids: "engine_ids s2 = host_engine_ids s"
    using assms by (simp add: engine_ids_after_import)
  have cached: "lookup_name ''__cachedengine__'' (for_each loop_body ks s2) = host_cachedengine s" for ks
    unfolding host_cachedengine_def
    by (rule lookup_name_cong) (simp add: for_each_loop_body_scope assms(2))
  have mods: "module_attr m n (print_stmt x (for_each loop_body ks s2)) = module_attr m n s" for m n x ks
    by (rule module_attr_cong) (simp add: assms(2))
  have out: "print_outputs (assign ''PyRevitOutputMgr'' m s') =
      and_then (and_then (getattr m ''get_all_outputs'') call0)
        (\<lambda>r. Inr (print_stmt r (assign ''PyRevitOutputMgr'' m s')))" for m s'
    by (simp add: print_outputs_def lookup_name_def and_then_assoc)
  show ?thesis
    by (simp add: script_stmts_def ids print_reuse_def cached import_output_mgr_def
        import_from_def mods out split: sum.splits)
qed

text \<open>What a run prints, and how it ends, from the three things the host supplies.\<close>

lemma host_engine_ids_import_fails:
  "module_attr ''pyrevit'' ''EXEC_PARAMS'' s = Inl e \<Longrightarrow> host_engine_ids s = Inl e"
  by (simp add: host_engine_ids_def host_engine_dict_def)

lemma script_printed:
  "printed (fst (script s)) = printed s @
     (case host_engine_ids s of
        Inl e \<Rightarrow> []
      | Inr ks \<Rightarrow> map py_str ks @
         (case host_cachedengine s of
            Inl e \<Rightarrow> []
          | Inr c \<Rightarrow> reuse_message c #
             (case host_all_outputs s of Inl e \<Rightarrow> [] | Inr r \<Rightarrow> [py_str r])))"
proof (cases "module_attr ''pyrevit'' ''EXEC_PARAMS'' s")
  case (Inl e)
  then show ?thesis
    by (simp add: script_def script_prefix host_engine_ids_import_fails)
next
  case (Inr v)
  then show ?thesis
    by (cases "host_engine_ids s"; cases "host_cachedengine s";
        cases "module_attr ''pyrevit.output'' ''PyRevitOutputMgr'' s";
        simp add: script_def script_prefix script_rest [OF Inr refl] host_all_outputs_def
          split: sum.splits)
qed

lemma script_exception:
  "snd (script s) =
     (case host_engine_ids s of
        Inl e \<Rightarrow> Some e
      | Inr ks \<Rightarrow>
         (case host_cachedengine s of
            Inl e \<Rightarrow> Some e
          | Inr c \<Rightarrow> (case host_all_outputs s of Inl e \<Rightarrow> Some e | Inr r \<Rightarrow> None)))"
proof (cases "module_attr ''pyrevit'' ''EXEC_PARAMS'' s")
  case (Inl e)
  then show ?thesis
    by (simp add: script_def script_prefix host_engine_ids_import_fails)
next
  case (Inr v)
  then show ?thesis
    by (cases "host_engine_ids s"; cases "host_cachedengine s";
        cases "module_attr ''pyrevit.output'' ''PyRevitOutputMgr'' s";
        simp add: script_def script_prefix script_rest [OF Inr refl] host_all_outputs_def
          split: sum.splits)
qed

lemma script_modules: "modules (fst (script s)) = modules s"
proof (cases "module_attr ''pyrevit'' ''EXEC_PARAMS'' s")
  case (Inl e)
  then show ?thesis
    by (simp add: script_def script_prefix)
next
  case (Inr v)
  then show ?thesis
    by (cases "host_engine_ids s"; cases "host_cachedengine s";
        cases "module_attr ''pyrevit.output'' ''PyRevitOutputMgr'' s";
        simp add: script_def script_prefix script_rest [OF Inr refl] split: sum.splits)
qed

lemma script_scope:
  assumes "name \<notin> {''__context__'', ''EXEC_PARAMS'', ''engine_id'', ''PyRevitOutputMgr''}"
  shows "map_of (scope (fst (script s))) name = map_of (scope s) name"
proof (cases "module_attr ''pyrevit'' ''EXEC_PARAMS'' s")
  case (Inl e)
  then show ?thesis
    using assms by (simp add: script_def script_prefix)
next
  case (Inr v)
  then show ?thesis
    using assms
    by (cases "host_engine_ids s"; cases "host_cachedengine s";
        cases "module_attr ''pyrevit.output'' ''PyRevitOutputMgr'' s";
        simp add: script_def script_prefix script_rest [OF Inr refl] for_each_loop_body_scope
          split: sum.splits)
qed

lemma script_output_eq:
  "script_output s =
     (case host_engine_ids s of
        Inl e \<Rightarrow> []
      | Inr ks \<Rightarrow> map py_str ks @
         (case host_cachedengine s of
            Inl e \<Rightarrow> []
          | Inr c \<Rightarrow> reuse_message c #
             (case host_all_outputs s of Inl e \<Rightarrow> [] | Inr r \<Rightarrow> [py_str r])))"
  by (simp add: script_output_def script_printed)

subsection \<open>The step machine against the run\<close>

lemma exec_Finished [simp]: "exec n (Finished r, s) = Some (s, r)"
  by (cases n) simp_all

lemma exec_Looping:
  "exec (Suc (length xs) + n) (Looping body xs cs, s) = exec n (Running cs, for_each body xs s)"
  by (induction xs arbitrary: s) simp_all

lemma exec_run_stmts:
  "steps cs s \<le> n \<Longrightarrow> exec n (Running cs, s) = Some (run_stmts cs s)"
proof (induction cs arbitrary: s n)
  case Nil
  then obtain m where "n = Suc m" by (cases n) auto
  then show ?case by simp
next
  case (Cons c cs)
  show ?case
  proof (cases c)
    case (Simple f)
    from Cons.prems Simple obtain m where n: "n = Suc m" by (cases n) auto
    show ?thesis
    proof (cases "f s")
      case (Inl e)
      then show ?thesis using Simple n by simp
    next
      case (Inr s')
      then have "steps cs s' \<le> m" using Cons.prems Simple n by simp
      then show ?thesis using Cons.IH Simple n Inr by simp
    qed
  next
    case (For iterable body)
    from Cons.prems For obtain m where n: "n = Suc m" by (cases n) (auto split: sum.splits)
    show ?thesis
    proof (cases "iterable s")
      case (Inl e)
      then show ?thesis using For n by simp
    next
      case (Inr items)
      then have "Suc (length items) + steps cs (for_each body items s) \<le> m"
        using Cons.prems For n by simp
      then obtain k where m: "m = Suc (length items) + k" and k: "steps cs (for_each body items s) \<le> k"
        by (metis le_add_diff_inverse add_leD1 le_diff_conv2 add.commute)
      show ?thesis using For n Inr m exec_Looping [of items k body cs s] Cons.IH [OF k]
        by simp
    qed
  qed
qed

lemma steps_script:
  "steps script_stmts s \<le> 8 + (case host_engine_ids s of Inl e \<Rightarrow> 0 | Inr ks \<Rightarrow> length ks)"
proof (cases "module_attr ''pyrevit'' ''EXEC_PARAMS'' s")
  case (Inl e)
  then show ?thesis
    by (simp add: script_stmts_def assign_context_def import_exec_params_def import_from_def)
next
  case (Inr v)
  then show ?thesis
    by (cases "host_engine_ids s")
      (simp_all add: script_stmts_def assign_context_def import_exec_params_def import_from_def
        engine_ids_after_import split: sum.splits)
qed

subsection \<open>The example host\<close>

lemma example_host_supplies:
  "host_engine_ids (host_with example_registry names outs) =
     Inr [PStr ''engine-a'', PStr ''engine-b'']"
  "host_cachedengine (host_with reg [(''__cachedengine__'', c)] outs) = Inr c"
  "host_cachedengine (host_with reg [] outs) = Inl (NameError ''__cachedengine__'')"
  "host_all_outputs (host_with reg names outs) = outs"
  "host_engine_dict (host_with reg names outs) = Inr reg"
  by (simp_all add: host_engine_ids_def host_engine_dict_def host_cachedengine_def
      host_all_outputs_def lookup_name_def host_with_def module_attr_def example_registry_def)

section \<open>The claims\<close>

text \<open>
  C1. When the engine registry the host supplies is a non-empty mapping, the first
  lines the script prints are the texts of the registry's keys, one line for each
  key, in the registry's own order: none added, none dropped, none moved. Where the
  identifiers are strings, the lines are the identifiers themselves.
\<close>

theorem engine_ids_printed_in_registry_order:
  assumes "host_engine_dict s = Inr (PMap t entries)" and "entries \<noteq> []"
  shows "take (length entries) (script_output s) = map py_str (map fst entries) \<and>
         (\<forall>ids. map fst entries = map PStr ids \<longrightarrow> take (length entries) (script_output s) = ids)"
proof -
  have "host_engine_ids s = Inr (map fst entries)"
    using assms(1) by (simp add: host_engine_ids_def)
  then have out: "take (length entries) (script_output s) = map py_str (map fst entries)"
    by (simp add: script_output_eq)
  have strs: "map py_str (map PStr ids) = ids" for ids
    by (induction ids) simp_all
  have "take (length entries) (script_output s) = ids" if "map fst entries = map PStr ids" for ids
    using out strs [of ids] that by (simp only:)
  with out show ?thesis by blast
qed

theorem engine_ids_printed_in_registry_order_witness:
  "host_engine_dict example_host = Inr example_registry \<and>
   take 2 (script_output example_host) = [''engine-a'', ''engine-b'']"
proof -
  have d: "host_engine_dict example_host =
      Inr (PMap ''Dictionary[str, ScriptEngine]''
        [(PStr ''engine-a'', PObj ''<ScriptEngine a>'' []),
         (PStr ''engine-b'', PObj ''<ScriptEngine b>'' [])])"
    by (simp add: host_engine_dict_def example_host_def host_with_def module_attr_def
        example_registry_def)
  show ?thesis
    using d engine_ids_printed_in_registry_order [OF d]
    by (simp add: example_registry_def numeral_2_eq_2)
qed

text \<open>
  C2. The entry the script prints after the engine identifiers is the question
  \<open>Running in reused engine?\<close>, a newline, and the answer; so it shows as two
  lines, and the line after the question is exactly \<open>Yes\<close> when the cache-hit
  indicator is true as a condition and exactly \<open>No\<close> when it is false.
\<close>

theorem reuse_message_yes_or_no:
  assumes "host_engine_ids s = Inr ks" and "host_cachedengine s = Inr c"
  shows "length ks < length (script_output s) \<and>
         script_output s ! length ks =
           ''Running in reused engine?'' @ [newline] @ (if truthy c then ''Yes'' else ''No'') \<and>
         split_lines (script_output s ! length ks) =
           [''Running in reused engine?'', if truthy c then ''Yes'' else ''No'']"
proof -
  have msg: "script_output s ! length ks = reuse_message c"
    using assms by (simp add: script_output_eq nth_append)
  have len: "length ks < length (script_output s)"
    using assms by (simp add: script_output_eq)
  have "split_lines (reuse_message c) =
      [''Running in reused engine?'', if truthy c then ''Yes'' else ''No'']"
    by (simp add: reuse_message_eq reuse_answer_def newline_def)
  then show ?thesis
    using msg len by (simp add: reuse_message_eq reuse_answer_def)
qed

theorem reuse_message_yes_or_no_witness:
  "split_lines (script_output example_host ! 2) = [''Running in reused engine?'', ''Yes''] \<and>
   split_lines
     (script_output
       (host_with example_registry [(''__cachedengine__'', PInt 0)] (Inr example_outputs)) ! 2)
     = [''Running in reused engine?'', ''No'']"
proof -
  have ids: "host_engine_ids (host_with example_registry names outs) =
      Inr [PStr ''engine-a'', PStr ''engine-b'']" for names outs
    by (simp add: example_host_supplies)
  have c1: "host_cachedengine example_host = Inr (PBool True)"
    by (simp add: example_host_def example_host_supplies)
  have c2: "host_cachedengine (host_with example_registry [(''__cachedengine__'', PInt 0)]
      (Inr example_outputs)) = Inr (PInt 0)"
    by (simp add: example_host_supplies)
  show ?thesis
    using reuse_message_yes_or_no [OF ids [of "[(''__cachedengine__'', PBool True)]"
          "Inr example_outputs", folded example_host_def] c1, THEN conjunct2, THEN conjunct2]
      reuse_message_yes_or_no [OF ids c2, THEN conjunct2, THEN conjunct2]
    by (simp add: numeral_2_eq_2)
qed

text \<open>
  C3. Whatever value \<open>get_all_outputs\<close> returns, the last \<open>print\<close> writes the
  text of that value, \<open>str\<close> of it, and nothing else: one entry, which on the
  standard output is that text followed by the newline of \<open>print\<close>.
\<close>

theorem outputs_printed_unmodified:
  assumes "host_engine_ids s = Inr ks" and "host_cachedengine s = Inr c"
      and "host_all_outputs s = Inr r"
  shows "drop (length ks + 1) (script_output s) = [py_str r] \<and>
         stdout_bytes (drop (length ks + 1) (script_output s)) = py_str r @ [newline]"
  using assms by (simp add: script_output_eq stdout_bytes_def)

theorem outputs_printed_unmodified_witness:
  "drop 3 (script_output example_host) = [''[<ScriptOutput 1>]'']"
  using outputs_printed_unmodified [of example_host "[PStr ''engine-a'', PStr ''engine-b'']"
      "PBool True" example_outputs]
  by (simp add: example_host_def example_host_supplies example_outputs_def numeral_3_eq_3)

text \<open>
  C4. What a run prints is, in this order, the engine registry's keys, one line for
  each, then the reuse message, then the result of the one call of
  \<open>get_all_outputs\<close>, and nothing else. A run that an exception ends has printed
  the part of this sequence that comes before the exception: nothing when the
  registry is not supplied, the keys when the cache-hit indicator is missing, the
  keys and the reuse message when the accessor fails.
\<close>

theorem script_output_in_order:
  "(\<forall>e. host_engine_dict s = Inl e \<longrightarrow> script_output s = []) \<and>
   (\<forall>t entries e.
      host_engine_dict s = Inr (PMap t entries) \<longrightarrow> host_cachedengine s = Inl e \<longrightarrow>
      script_output s = map py_str (map fst entries)) \<and>
   (\<forall>t entries c e.
      host_engine_dict s = Inr (PMap t entries) \<longrightarrow> host_cachedengine s = Inr c \<longrightarrow>
      host_all_outputs s = Inl e \<longrightarrow>
      script_output s =
        map py_str (map fst entries) @
        [''Running in reused engine?'' @ [newline] @ (if truthy c then ''Yes'' else ''No'')]) \<and>
   (\<forall>t entries c r.
      host_engine_dict s = Inr (PMap t entries) \<longrightarrow> host_cachedengine s = Inr c \<longrightarrow>
      host_all_outputs s = Inr r \<longrightarrow>
      script_output s =
        map py_str (map fst entries) @
        [''Running in reused engine?'' @ [newline] @ (if truthy c then ''Yes'' else ''No'')] @
        [py_str r] \<and>
      (\<forall>ids. map fst entries = map PStr ids \<longrightarrow>
        script_output s =
          ids @
          [''Running in reused engine?'' @ [newline] @ (if truthy c then ''Yes'' else ''No'')] @
          [py_str r]))"
proof -
  have strs: "map py_str (map PStr ids) = ids" for ids
    by (induction ids) simp_all
  have full: "script_output s =
      map py_str (map fst entries) @
      [''Running in reused engine?'' @ [newline] @ (if truthy c then ''Yes'' else ''No'')] @
      [py_str r]"
    if "host_engine_dict s = Inr (PMap t entries)" "host_cachedengine s = Inr c"
      "host_all_outputs s = Inr r" for t entries c r
    using that
    by (simp add: script_output_eq host_engine_ids_def reuse_message_eq reuse_answer_def)
  have ids: "script_output s =
      ids @ [''Running in reused engine?'' @ [newline] @ (if truthy c then ''Yes'' else ''No'')] @
      [py_str r]"
    if "host_engine_dict s = Inr (PMap t entries)" "host_cachedengine s = Inr c"
      "host_all_outputs s = Inr r" "map fst entries = map PStr ids" for t entries c r ids
    using full [OF that(1-3)] strs [of ids] that(4) by (simp only:)
  have none: "script_output s = []" if "host_engine_dict s = Inl e" for e
    using that by (simp add: script_output_eq host_engine_ids_def)
  have keys: "script_output s = map py_str (map fst entries)"
    if "host_engine_dict s = Inr (PMap t entries)" "host_cachedengine s = Inl e" for t entries e
    using that by (simp add: script_output_eq host_engine_ids_def)
  have msg: "script_output s =
      map py_str (map fst entries) @
      [''Running in reused engine?'' @ [newline] @ (if truthy c then ''Yes'' else ''No'')]"
    if "host_engine_dict s = Inr (PMap t entries)" "host_cachedengine s = Inr c"
      "host_all_outputs s = Inl e" for t entries c e
    using that
    by (simp add: script_output_eq host_engine_ids_def reuse_message_eq reuse_answer_def)
  show ?thesis
    using none keys msg full ids by blast
qed

theorem script_output_in_order_witness:
  "script_output example_host =
     [''engine-a'', ''engine-b'', ''Running in reused engine?'' @ [newline] @ ''Yes'',
      ''[<ScriptOutput 1>]''] \<and>
   script_output (host_with example_registry [] (Inr example_outputs)) =
     [''engine-a'', ''engine-b'']"
proof -
  have d: "host_engine_dict (host_with example_registry names outs) =
      Inr (PMap ''Dictionary[str, ScriptEngine]''
        [(PStr ''engine-a'', PObj ''<ScriptEngine a>'' []),
         (PStr ''engine-b'', PObj ''<ScriptEngine b>'' [])])" for names outs
    by (simp add: example_host_supplies example_registry_def)
  have c: "host_cachedengine example_host = Inr (PBool True)"
    by (simp add: example_host_def example_host_supplies)
  have r: "host_all_outputs example_host = Inr example_outputs"
    by (simp add: example_host_def example_host_supplies)
  have n: "host_cachedengine (host_with example_registry [] (Inr example_outputs)) =
      Inl (NameError ''__cachedengine__'')"
    by (simp add: example_host_supplies)
  have full: "script_output example_host =
      map py_str (map fst [(PStr ''engine-a'', PObj ''<ScriptEngine a>'' []),
         (PStr ''engine-b'', PObj ''<ScriptEngine b>'' [])]) @
      [''Running in reused engine?'' @ [newline] @ (if truthy (PBool True) then ''Yes'' else ''No'')] @
      [py_str example_outputs]"
    using script_output_in_order [of example_host] d [of "[(''__cachedengine__'', PBool True)]"
        "Inr example_outputs", folded example_host_def] c r
    by blast
  have part: "script_output (host_with example_registry [] (Inr example_outputs)) =
      map py_str (map fst [(PStr ''engine-a'', PObj ''<ScriptEngine a>'' []),
         (PStr ''engine-b'', PObj ''<ScriptEngine b>'' [])])"
    using script_output_in_order [of "host_with example_registry [] (Inr example_outputs)"] d n
    by blast
  show ?thesis
    using full part by (simp add: example_outputs_def)
qed

text \<open>
  C5. A run leaves what the host owns as it was: the modules, and with them the
  engine registry and the output manager, are the same after the run, and so is the
  cache-hit indicator; the registry, the indicator and the accessor's result read
  after the run are what they were before it.
\<close>

theorem host_entities_unchanged:
  "modules (fst (script s)) = modules s \<and>
   host_engine_dict (fst (script s)) = host_engine_dict s \<and>
   host_cachedengine (fst (script s)) = host_cachedengine s \<and>
   host_all_outputs (fst (script s)) = host_all_outputs s"
proof -
  have m: "modules (fst (script s)) = modules s"
    by (rule script_modules)
  have c: "map_of (scope (fst (script s))) ''__cachedengine__'' = map_of (scope s) ''__cachedengine__''"
    by (rule script_scope) simp
  show ?thesis
    using m c
    by (simp add: host_engine_dict_def host_all_outputs_def host_cachedengine_def
        module_attr_def lookup_name_def)
qed

text \<open>
  C6. Two runs whose engine registries have the same keys in the same order, with
  any engine instances as values, and whose cache-hit indicator and accessor result
  agree, print the same lines and end the same way.
\<close>

theorem engine_values_do_not_matter:
  assumes "host_engine_dict s1 = Inr (PMap t1 entries1)"
      and "host_engine_dict s2 = Inr (PMap t2 entries2)"
      and "map fst entries1 = map fst entries2"
      and "host_cachedengine s1 = host_cachedengine s2"
      and "host_all_outputs s1 = host_all_outputs s2"
  shows "script_output s1 = script_output s2 \<and> snd (script s1) = snd (script s2)"
proof -
  have ids: "host_engine_ids s1 = host_engine_ids s2"
    using assms(1-3) by (simp add: host_engine_ids_def)
  show ?thesis
    unfolding script_output_eq script_exception ids assms(4,5) by simp
qed

theorem engine_values_do_not_matter_witness:
  "PMap ''first'' [(PStr ''engine-a'', PInt 1), (PStr ''engine-b'', PInt 2)] \<noteq>
     PMap ''second'' [(PStr ''engine-a'', PNone), (PStr ''engine-b'', PStr ''x'')] \<and>
   script_output (host_with (PMap ''first'' [(PStr ''engine-a'', PInt 1), (PStr ''engine-b'', PInt 2)])
       [(''__cachedengine__'', PBool False)] (Inr example_outputs)) =
   script_output (host_with (PMap ''second'' [(PStr ''engine-a'', PNone), (PStr ''engine-b'', PStr ''x'')])
       [(''__cachedengine__'', PBool False)] (Inr example_outputs))"
  using engine_values_do_not_matter
    [of "host_with (PMap ''first'' [(PStr ''engine-a'', PInt 1), (PStr ''engine-b'', PInt 2)])
          [(''__cachedengine__'', PBool False)] (Inr example_outputs)"
        "''first''" "[(PStr ''engine-a'', PInt 1), (PStr ''engine-b'', PInt 2)]"
        "host_with (PMap ''second'' [(PStr ''engine-a'', PNone), (PStr ''engine-b'', PStr ''x'')])
          [(''__cachedengine__'', PBool False)] (Inr example_outputs)"
        "''second''" "[(PStr ''engine-a'', PNone), (PStr ''engine-b'', PStr ''x'')]"]
  by (simp add: example_host_supplies)

text \<open>
  C7. Whatever exception an operation of the script raises is the exception the run
  ends with, unchanged, and nothing is printed after it: a module or name that
  cannot be imported, an attribute that is missing, a registry that cannot be
  iterated, the name \<open>__cachedengine__\<close> missing from the scope, and, for the
  accessor, a failed import, a missing attribute, a value that cannot be called or
  an exception raised by the call. The examples run the script on hosts with each of
  these faults.
\<close>

theorem fault_propagates_unhandled:
  "(map_of (modules s) ''pyrevit'' = None \<longrightarrow>
      snd (script s) = Some (ImportError ''pyrevit'') \<and> script_output s = []) \<and>
   (\<forall>e. host_engine_dict s = Inl e \<longrightarrow> snd (script s) = Some e \<and> script_output s = []) \<and>
   (\<forall>d e. host_engine_dict s = Inr d \<longrightarrow> py_iter d = Inl e \<longrightarrow>
      snd (script s) = Some e \<and> script_output s = []) \<and>
   (\<forall>t entries.
      host_engine_dict s = Inr (PMap t entries) \<longrightarrow>
      map_of (scope s) ''__cachedengine__'' = None \<longrightarrow>
      snd (script s) = Some (NameError ''__cachedengine__'') \<and>
      script_output s = map py_str (map fst entries)) \<and>
   (\<forall>t entries c e.
      host_engine_dict s = Inr (PMap t entries) \<longrightarrow> host_cachedengine s = Inr c \<longrightarrow>
      host_all_outputs s = Inl e \<longrightarrow>
      snd (script s) = Some e \<and>
      script_output s =
        map py_str (map fst entries) @
        [''Running in reused engine?'' @ [newline] @ (if truthy c then ''Yes'' else ''No'')])"
proof -
  have dict: "snd (script s) = Some e \<and> script_output s = []"
    if "host_engine_dict s = Inl e" for e
    using that by (simp add: script_exception script_output_eq host_engine_ids_def)
  have "host_engine_dict s = Inl (ImportError ''pyrevit'')"
    if "map_of (modules s) ''pyrevit'' = None"
    using that by (simp add: host_engine_dict_def module_attr_def)
  then have import: "snd (script s) = Some (ImportError ''pyrevit'') \<and> script_output s = []"
    if "map_of (modules s) ''pyrevit'' = None"
    using that dict by blast
  have iter: "snd (script s) = Some e \<and> script_output s = []"
    if "host_engine_dict s = Inr d" "py_iter d = Inl e" for d e
    using that by (simp add: script_exception script_output_eq host_engine_ids_def)
  have name: "snd (script s) = Some (NameError ''__cachedengine__'') \<and>
      script_output s = map py_str (map fst entries)"
    if "host_engine_dict s = Inr (PMap t entries)" "map_of (scope s) ''__cachedengine__'' = None"
    for t entries
    using that
    by (simp add: script_exception script_output_eq host_engine_ids_def host_cachedengine_def
        lookup_name_def)
  have outs: "snd (script s) = Some e \<and>
      script_output s =
        map py_str (map fst entries) @
        [''Running in reused engine?'' @ [newline] @ (if truthy c then ''Yes'' else ''No'')]"
    if "host_engine_dict s = Inr (PMap t entries)" "host_cachedengine s = Inr c"
      "host_all_outputs s = Inl e" for t entries c e
    using that
    by (simp add: script_exception script_output_eq host_engine_ids_def reuse_message_eq
        reuse_answer_def)
  show ?thesis
    using import dict iter name outs by blast
qed

theorem fault_propagates_unhandled_witness:
  "snd (script (host_modules [])) = Some (ImportError ''pyrevit'') \<and>
   snd (script (host_modules [(''pyrevit'', [(''EXEC_PARAMS'', PObj ''<EXEC_PARAMS>'' [])])])) =
     Some (AttributeError ''engine_mgr'') \<and>
   snd (script (host_with PNone [(''__cachedengine__'', PBool True)] (Inr example_outputs))) =
     Some (TypeError ''not iterable'') \<and>
   snd (script (host_with example_registry [] (Inr example_outputs))) =
     Some (NameError ''__cachedengine__'') \<and>
   snd (script (host_with example_registry [(''__cachedengine__'', PBool True)]
      (Inl (HostError ''output registry unavailable'')))) =
     Some (HostError ''output registry unavailable'') \<and>
   snd (script (host_modules
      [(''pyrevit'', [(''EXEC_PARAMS'', PObj ''<EXEC_PARAMS>''
          [(''engine_mgr'', PObj ''<EngineManager>'' [(''EngineDict'', example_registry)])])]),
       (''pyrevit.output'', [(''PyRevitOutputMgr'', PObj ''<PyRevitOutputMgr>'' [])])])) =
     Some (AttributeError ''get_all_outputs'') \<and>
   snd (script (host_modules
      [(''pyrevit'', [(''EXEC_PARAMS'', PObj ''<EXEC_PARAMS>''
          [(''engine_mgr'', PObj ''<EngineManager>'' [(''EngineDict'', example_registry)])])]),
       (''pyrevit.output'', [(''PyRevitOutputMgr'', PObj ''<PyRevitOutputMgr>''
          [(''get_all_outputs'', PInt 7)])])])) =
     Some (TypeError ''not callable'')"
proof -
  note host_defs = host_engine_dict_def host_cachedengine_def host_all_outputs_def
    module_attr_def lookup_name_def host_modules_def host_with_def example_registry_def
  let ?s1 = "host_modules []"
  have a1: "map_of (modules ?s1) ''pyrevit'' = None"
    by (simp add: host_modules_def)
  let ?s2 = "host_modules [(''pyrevit'', [(''EXEC_PARAMS'', PObj ''<EXEC_PARAMS>'' [])])]"
  have a2: "host_engine_dict ?s2 = Inl (AttributeError ''engine_mgr'')"
    by (simp add: host_defs)
  let ?s3 = "host_with PNone [(''__cachedengine__'', PBool True)] (Inr example_outputs)"
  have a3: "host_engine_dict ?s3 = Inr PNone" "py_iter PNone = Inl (TypeError ''not iterable'')"
    by (simp_all add: host_defs)
  let ?s4 = "host_with example_registry [] (Inr example_outputs)"
  have a4: "host_engine_dict ?s4 = Inr (PMap ''Dictionary[str, ScriptEngine]''
        [(PStr ''engine-a'', PObj ''<ScriptEngine a>'' []),
         (PStr ''engine-b'', PObj ''<ScriptEngine b>'' [])])"
      "map_of (scope ?s4) ''__cachedengine__'' = None"
    by (simp_all add: host_defs)
  let ?s5 = "host_with example_registry [(''__cachedengine__'', PBool True)]
      (Inl (HostError ''output registry unavailable''))"
  have a5: "host_engine_dict ?s5 = Inr (PMap ''Dictionary[str, ScriptEngine]''
        [(PStr ''engine-a'', PObj ''<ScriptEngine a>'' []),
         (PStr ''engine-b'', PObj ''<ScriptEngine b>'' [])])"
      "host_cachedengine ?s5 = Inr (PBool True)"
      "host_all_outputs ?s5 = Inl (HostError ''output registry unavailable'')"
    by (simp_all add: host_defs)
  let ?s6 = "host_modules
      [(''pyrevit'', [(''EXEC_PARAMS'', PObj ''<EXEC_PARAMS>''
          [(''engine_mgr'', PObj ''<EngineManager>'' [(''EngineDict'', example_registry)])])]),
       (''pyrevit.output'', [(''PyRevitOutputMgr'', PObj ''<PyRevitOutputMgr>'' [])])]"
  have a6: "host_engine_dict ?s6 = Inr (PMap ''Dictionary[str, ScriptEngine]''
        [(PStr ''engine-a'', PObj ''<ScriptEngine a>'' []),
         (PStr ''engine-b'', PObj ''<ScriptEngine b>'' [])])"
      "host_cachedengine ?s6 = Inr (PBool True)"
      "host_all_outputs ?s6 = Inl (AttributeError ''get_all_outputs'')"
    by (simp_all add: host_defs)
  let ?s7 = "host_modules
      [(''pyrevit'', [(''EXEC_PARAMS'', PObj ''<EXEC_PARAMS>''
          [(''engine_mgr'', PObj ''<EngineManager>'' [(''EngineDict'', example_registry)])])]),
       (''pyrevit.output'', [(''PyRevitOutputMgr'', PObj ''<PyRevitOutputMgr>''
          [(''get_all_outputs'', PInt 7)])])]"
  have a7: "host_engine_dict ?s7 = Inr (PMap ''Dictionary[str, ScriptEngine]''
        [(PStr ''engine-a'', PObj ''<ScriptEngine a>'' []),
         (PStr ''engine-b'', PObj ''<ScriptEngine b>'' [])])"
      "host_cachedengine ?s7 = Inr (PBool True)"
      "host_all_outputs ?s7 = Inl (TypeError ''not callable'')"
    by (simp_all add: host_defs)
  have r1: "snd (script ?s1) = Some (ImportError ''pyrevit'')"
    using fault_propagates_unhandled [of ?s1] a1 by blast
  have r2: "snd (script ?s2) = Some (AttributeError ''engine_mgr'')"
    using fault_propagates_unhandled [of ?s2] a2 by blast
  have r3: "snd (script ?s3) = Some (TypeError ''not iterable'')"
    using fault_propagates_unhandled [of ?s3] a3 by blast
  have r4: "snd (script ?s4) = Some (NameError ''__cachedengine__'')"
    using fault_propagates_unhandled [of ?s4] a4 by blast
  have r5: "snd (script ?s5) = Some (HostError ''output registry unavailable'')"
    using fault_propagates_unhandled [of ?s5] a5 by blast
  have r6: "snd (script ?s6) = Some (AttributeError ''get_all_outputs'')"
    using fault_propagates_unhandled [of ?s6] a6 by blast
  have r7: "snd (script ?s7) = Some (TypeError ''not callable'')"
    using fault_propagates_unhandled [of ?s7] a7 by blast
  show ?thesis
    using r1 r2 r3 r4 r5 r6 r7 by (simp only: simp_thms)
qed

text \<open>
  C8. The script terminates: the step machine finishes the run within eight steps
  plus one for each key of the registry, each statement executed once and the loop
  body once for each key, and its result is the result of the run.
\<close>

theorem script_terminates:
  "exec (8 + (case host_engine_ids s of Inl e \<Rightarrow> 0 | Inr ks \<Rightarrow> length ks))
     (Running script_stmts, s) = Some (script s) \<and>
   exec (steps script_stmts s) (Running script_stmts, s) = Some (script s)"
  by (simp add: script_def exec_run_stmts steps_script)

text \<open>
  C9. With an empty engine registry the script prints no identifier, and still
  prints the reuse message and the result of \<open>get_all_outputs\<close>, and ends
  without an exception.
\<close>

theorem empty_registry_still_prints_rest:
  assumes "host_engine_dict s = Inr (PMap t [])"
      and "host_cachedengine s = Inr c"
      and "host_all_outputs s = Inr r"
  shows "script_output s = [reuse_message c, py_str r] \<and> snd (script s) = None"
  using assms by (simp add: script_output_eq script_exception host_engine_ids_def)

theorem empty_registry_still_prints_rest_witness:
  "script_output (host_with (PMap ''{}'' []) [(''__cachedengine__'', PBool False)]
      (Inr example_outputs)) =
     [''Running in reused engine?'' @ [newline] @ ''No'', ''[<ScriptOutput 1>]'']"
  using empty_registry_still_prints_rest
    [of "host_with (PMap ''{}'' []) [(''__cachedengine__'', PBool False)] (Inr example_outputs)"
        "''{}''" "PBool False" example_outputs]
  by (simp add: example_host_supplies reuse_message_eq reuse_answer_def example_outputs_def)

text \<open>
  C10. Two runs given the same engine registry, the same cache-hit indicator and the
  same accessor result write the same bytes to the standard output and end the same
  way.
\<close>

theorem script_deterministic:
  assumes "host_engine_dict s1 = host_engine_dict s2"
      and "host_cachedengine s1 = host_cachedengine s2"
      and "host_all_outputs s1 = host_all_outputs s2"
  shows "stdout_bytes (script_output s1) = stdout_bytes (script_output s2) \<and>
         snd (script s1) = snd (script s2)"
  unfolding script_output_eq script_exception host_engine_ids_def assms by simp

theorem script_deterministic_witness:
  "stdout_bytes (script_output example_host) =
   stdout_bytes (script_output (example_host\<lparr>printed := [''output of an earlier run'']\<rparr>))"
  using script_deterministic
    [of example_host "example_host\<lparr>printed := [''output of an earlier run'']\<rparr>"]
  by (simp add: host_engine_dict_def host_cachedengine_def host_all_outputs_def
      module_attr_def lookup_name_def)

end
